theory Spec2Isabelle
  imports Main "HOL-Library.Word"
begin

section \<open>Texts, bytes and the string operations of the wrapper\<close>

text \<open>
  A Python \<open>str\<close> is a sequence of Unicode code points and \<open>bytes\<close> a sequence of
  octets. \<open>lit\<close> and \<open>ascii\<close> read an ASCII literal as the one and as the other.
\<close>

type_synonym str = "nat list"

type_synonym bytes = "8 word list"

definition lit :: "string \<Rightarrow> str" where
  "lit s = map of_char s"

definition ascii :: "string \<Rightarrow> bytes" where
  "ascii s = map of_char s"

text \<open>
  \<open>bytes.decode("utf-8")\<close> with the default strict error handling: \<open>None\<close> stands for
  the \<open>UnicodeDecodeError\<close>. Overlong forms, surrogates and code points above U+10FFFF
  are rejected through the ranges of the first two bytes.
\<close>

definition cont :: "8 word \<Rightarrow> bool" where
  "cont b = (0x80 \<le> b \<and> b \<le> 0xBF)"

definition second_of3 :: "8 word \<Rightarrow> 8 word \<Rightarrow> bool" where
  "second_of3 b c =
     (if b = 0xE0 then 0xA0 \<le> c \<and> c \<le> 0xBF
      else if b = 0xED then 0x80 \<le> c \<and> c \<le> 0x9F
      else cont c)"

definition second_of4 :: "8 word \<Rightarrow> 8 word \<Rightarrow> bool" where
  "second_of4 b c =
     (if b = 0xF0 then 0x90 \<le> c \<and> c \<le> 0xBF
      else if b = 0xF4 then 0x80 \<le> c \<and> c \<le> 0x8F
      else cont c)"

fun utf8_decode :: "bytes \<Rightarrow> str option" where
  "utf8_decode [] = Some []"
| "utf8_decode (b # bs) =
     (if b < 0x80 then map_option ((#) (unat b)) (utf8_decode bs)
      else if 0xC2 \<le> b \<and> b \<le> 0xDF then
        (case bs of
           c1 # r \<Rightarrow>
             if cont c1
             then map_option ((#) ((unat b - 0xC0) * 64 + (unat c1 - 0x80))) (utf8_decode r)
             else None
         | _ \<Rightarrow> None)
      else if 0xE0 \<le> b \<and> b \<le> 0xEF then
        (case bs of
           c1 # c2 # r \<Rightarrow>
             if second_of3 b c1 \<and> cont c2
             then map_option
                    ((#) ((unat b - 0xE0) * 4096 + (unat c1 - 0x80) * 64 + (unat c2 - 0x80)))
                    (utf8_decode r)
             else None
         | _ \<Rightarrow> None)
      else if 0xF0 \<le> b \<and> b \<le> 0xF4 then
        (case bs of
           c1 # c2 # c3 # r \<Rightarrow>
             if second_of4 b c1 \<and> cont c2 \<and> cont c3
             then map_option
                    ((#) ((unat b - 0xF0) * 262144 + (unat c1 - 0x80) * 4096
                          + (unat c2 - 0x80) * 64 + (unat c3 - 0x80)))
                    (utf8_decode r)
             else None
         | _ \<Rightarrow> None)
      else None)"

text \<open>
  \<open>str.strip()\<close> without argument removes leading and trailing white space, that is the
  code points for which \<open>str.isspace\<close> holds.
\<close>

definition isspace :: "nat \<Rightarrow> bool" where
  "isspace c =
     ((0x09 \<le> c \<and> c \<le> 0x0D) \<or> (0x1C \<le> c \<and> c \<le> 0x20) \<or> c = 0x85 \<or> c = 0xA0
      \<or> c = 0x1680 \<or> (0x2000 \<le> c \<and> c \<le> 0x200A) \<or> c = 0x2028 \<or> c = 0x2029
      \<or> c = 0x202F \<or> c = 0x205F \<or> c = 0x3000)"

definition strip :: "str \<Rightarrow> str" where
  "strip s = rev (dropWhile isspace (rev (dropWhile isspace s)))"

text \<open>\<open>s.split("\n")\<close>: the pieces between line feeds; never the empty list.\<close>

fun split_nl :: "str \<Rightarrow> str list" where
  "split_nl [] = [[]]"
| "split_nl (c # cs) =
     (if c = 0x0A then [] # split_nl cs
      else (case split_nl cs of [] \<Rightarrow> [[c]] | l # ls \<Rightarrow> (c # l) # ls))"

definition startswith :: "str \<Rightarrow> str \<Rightarrow> bool" where
  "startswith s p = (take (length p) s = p)"

text \<open>The lines of a text after trimming each, without those that become empty.\<close>

definition trimmed_lines :: "str \<Rightarrow> str list" where
  "trimmed_lines s = filter (\<lambda>l. l \<noteq> []) (map strip (split_nl s))"

text \<open>\<open>str(n)\<close> for an integer, as an f-string renders it.\<close>

fun digits :: "nat \<Rightarrow> str" where
  "digits n = (if n < 10 then [0x30 + n] else digits (n div 10) @ [0x30 + n mod 10])"

declare digits.simps [simp del]

definition str_int :: "int \<Rightarrow> str" where
  "str_int i = (if i < 0 then 0x2D # digits (nat (- i)) else digits (nat i))"


section \<open>Data model: schemas.py and config.py\<close>

text \<open>
  A decoded JSON value as \<open>json.loads\<close> builds it: \<open>None\<close>, \<open>bool\<close>, \<open>int\<close>, \<open>float\<close>
  (by its binary64 bits), \<open>str\<close>, \<open>list\<close> and \<open>dict\<close> (keys in insertion order).
\<close>

datatype json =
    JNull
  | JBool bool
  | JInt int
  | JFloat "64 word"
  | JStr str
  | JArr "json list"
  | JObj "(str \<times> json) list"

type_synonym jdict = "(str \<times> json) list"

text \<open>
  The exceptions the wrapper distinguishes, each with its \<open>str(e)\<close>:
  \<open>asyncio.TimeoutError\<close>, \<open>json.JSONDecodeError\<close>, and any other subclass of
  \<open>Exception\<close> (\<open>OSError\<close>, \<open>UnicodeDecodeError\<close>, pydantic's \<open>ValidationError\<close>,
  \<open>RuntimeError\<close>, ...).
\<close>

datatype exn = TimeoutError str | JSONDecodeError str | Exception str

fun str_exn :: "exn \<Rightarrow> str" where
  "str_exn (TimeoutError m) = m"
| "str_exn (JSONDecodeError m) = m"
| "str_exn (Exception m) = m"

record CLIResult =
  success :: bool
  data :: "jdict option"
  error :: "str option"
  stdout :: "str option"
  stderr :: "str option"
  exit_code :: int

record WorktreeResult =
  wr_success :: bool
  wr_message :: str
  wr_data :: "jdict option"
  wr_error :: "str option"

record MCPConfig =
  imi_binary_path :: str
  timeout_seconds :: int
  log_level :: str
  config_file :: "str option"


section \<open>The host: executable search, child processes and the libraries\<close>

type_synonym proc = nat

text \<open>
  What \<open>asyncio.wait_for(process.communicate(), timeout)\<close> can do: return the captured
  stdout and stderr once the child has exited with a return code; give up when the timer
  fires first (the arguments are what the child had written by then), which raises
  \<open>asyncio.TimeoutError\<close>; or raise something else.
\<close>

datatype communicate_result =
    Finished bytes bytes int
  | Expired bytes bytes
  | CommunicateRaised exn

text \<open>
  The host is a parameter of the model.
  \<^item> \<open>which\<close> is \<open>shutil.which\<close>;
  \<^item> \<open>create_subprocess_exec\<close> is \<open>asyncio.create_subprocess_exec\<close> with both pipes;
  \<^item> \<open>json_loads\<close> is \<open>json.loads\<close> on a text that begins with an opening brace, where
    a successful decode is a \<open>dict\<close>;
  \<^item> \<open>lax_bool\<close> is pydantic's coercion of a string or a number to \<open>bool\<close>;
  \<^item> \<open>unicode_error_text\<close> and \<open>validation_error_text\<close> give the \<open>str(e)\<close> of the
    \<open>UnicodeDecodeError\<close> for undecodable bytes and of the \<open>ValidationError\<close> for
    rejected \<open>success\<close>, \<open>data\<close> and \<open>error\<close> arguments.
\<close>

record host =
  which :: "str \<Rightarrow> str option"
  create_subprocess_exec :: "str list \<Rightarrow> exn + proc"
  wait_for_communicate :: "proc \<Rightarrow> int \<Rightarrow> communicate_result"
  json_loads :: "str \<Rightarrow> exn + jdict"
  lax_bool :: "json \<Rightarrow> bool option"
  unicode_error_text :: "bytes \<Rightarrow> str"
  validation_error_text :: "json \<Rightarrow> json \<Rightarrow> json \<Rightarrow> str"

text \<open>
  The requests a run makes of the host, in order. \<open>Kill\<close> stands for
  \<open>Process.kill\<close> and \<open>Process.terminate\<close>.
\<close>

datatype host_call =
    Which str
  | CreateSubprocessExec "str list"
  | WaitForCommunicate proc int
  | Kill proc


text \<open>
  The children that a sequence of requests leaves running. A wait that expires finds the
  child still running, and \<open>asyncio.wait_for\<close> then cancels the pending
  \<open>communicate()\<close> only: it sends the child no signal and does not wait for its exit.
  Such a child keeps running, and its process handle stays open, unless a later request
  kills it. A wait that finishes has seen the child exit.
\<close>

fun left_running :: "host \<Rightarrow> host_call list \<Rightarrow> proc list" where
  "left_running h [] = []"
| "left_running h (WaitForCommunicate p t # rest) =
     (case wait_for_communicate h p t of
        Expired out_bytes err_bytes \<Rightarrow>
          if Kill p \<in> set rest then left_running h rest else p # left_running h rest
      | _ \<Rightarrow> left_running h rest)"
| "left_running h (c # rest) = left_running h rest"


section \<open>Constructing a CLIResult from decoded JSON\<close>

text \<open>
  \<open>CLIResult\<close> is a pydantic model: \<open>success: bool\<close>, \<open>data: Optional[Dict[str, Any]]\<close>,
  \<open>error: Optional[str]\<close>. Its constructor validates the arguments and raises
  \<open>ValidationError\<close> for a value of the wrong type. Only the call of lines 75 to 81
  passes values that come from the decoded output; everywhere else the arguments are a
  \<open>bool\<close> constant, strings and an \<open>int\<close>, which always validate, and the record is
  written directly.
\<close>

fun validate_bool :: "host \<Rightarrow> json \<Rightarrow> bool option" where
  "validate_bool h (JBool b) = Some b"
| "validate_bool h JNull = None"
| "validate_bool h (JArr xs) = None"
| "validate_bool h (JObj kvs) = None"
| "validate_bool h v = lax_bool h v"

fun validate_opt_dict :: "json \<Rightarrow> jdict option option" where
  "validate_opt_dict JNull = Some None"
| "validate_opt_dict (JObj kvs) = Some (Some kvs)"
| "validate_opt_dict v = None"

fun validate_opt_str :: "json \<Rightarrow> str option option" where
  "validate_opt_str JNull = Some None"
| "validate_opt_str (JStr s) = Some (Some s)"
| "validate_opt_str v = None"

definition new_CLIResult ::
  "host \<Rightarrow> json \<Rightarrow> json \<Rightarrow> json \<Rightarrow> str option \<Rightarrow> str option \<Rightarrow> int \<Rightarrow> exn + CLIResult" where
  "new_CLIResult h s d e out err code =
     (case (validate_bool h s, validate_opt_dict d, validate_opt_str e) of
        (Some s', Some d', Some e') \<Rightarrow>
          Inr \<lparr>success = s', data = d', error = e', stdout = out, stderr = err,
               exit_code = code\<rparr>
      | _ \<Rightarrow> Inl (Exception (validation_error_text h s d e)))"

text \<open>\<open>d.get(key, default)\<close> and \<open>key in d\<close> on a decoded object.\<close>

definition dict_get :: "jdict \<Rightarrow> str \<Rightarrow> json \<Rightarrow> json" where
  "dict_get d k dflt = (case map_of d k of None \<Rightarrow> dflt | Some v \<Rightarrow> v)"

definition dict_in :: "str \<Rightarrow> jdict \<Rightarrow> bool" where
  "dict_in k d = (map_of d k \<noteq> None)"


section \<open>cli\_wrapper.py: run\_imi\_command\<close>

text \<open>
  Lines 63 to 71, the loop over \<open>reversed(lines)\<close>: the result is the value of
  \<open>json_line\<close> after the loop, or the exception that left it. A \<open>JSONDecodeError\<close>
  continues with the next line; any other exception leaves the loop.
\<close>

fun find_json_line :: "host \<Rightarrow> str list \<Rightarrow> exn + str option" where
  "find_json_line h [] = Inr None"
| "find_json_line h (line # rest) =
     (if startswith (strip line) (lit ''{'') then
        (case json_loads h (strip line) of
           Inr parsed \<Rightarrow>
             if dict_in (lit ''success'') parsed then Inr (Some (strip line))
             else find_json_line h rest
         | Inl (JSONDecodeError m) \<Rightarrow> find_json_line h rest
         | Inl e \<Rightarrow> Inl e)
      else find_json_line h rest)"

text \<open>
  Lines 57 to 98, the branch for return code zero with its handler for
  \<open>json.JSONDecodeError\<close>. \<open>if json_line\<close> tests that the line is neither \<open>None\<close> nor
  empty.
\<close>

definition parse_json_output :: "host \<Rightarrow> str \<Rightarrow> str \<Rightarrow> int \<Rightarrow> exn + CLIResult" where
  "parse_json_output h stdout_str stderr_str returncode =
     (let body =
        (case find_json_line h (rev (split_nl stdout_str)) of
           Inl e \<Rightarrow> Inl e
         | Inr json_line \<Rightarrow>
             (case json_line of
                Some l \<Rightarrow>
                  if l \<noteq> [] then
                    (case json_loads h l of
                       Inl e \<Rightarrow> Inl e
                     | Inr d \<Rightarrow>
                         new_CLIResult h
                           (dict_get d (lit ''success'') (JBool True))
                           (dict_get d (lit ''data'') JNull)
                           (dict_get d (lit ''error'') JNull)
                           (Some stdout_str) None returncode)
                  else
                    Inr \<lparr>success = True, data = None, error = None,
                         stdout = Some stdout_str, stderr = Some stderr_str,
                         exit_code = returncode\<rparr>
              | None \<Rightarrow>
                  Inr \<lparr>success = True, data = None, error = None,
                       stdout = Some stdout_str, stderr = Some stderr_str,
                       exit_code = returncode\<rparr>))
      in case body of
           Inl (JSONDecodeError m) \<Rightarrow>
             Inr \<lparr>success = False, data = None,
                  error = Some (lit ''Failed to parse JSON output: '' @ m),
                  stdout = Some stdout_str, stderr = Some stderr_str,
                  exit_code = returncode\<rparr>
         | r \<Rightarrow> r)"

text \<open>Lines 52 to 108: decoding and stripping both streams, then the two branches.\<close>

definition interpret_output :: "host \<Rightarrow> bytes \<Rightarrow> bytes \<Rightarrow> int \<Rightarrow> exn + CLIResult" where
  "interpret_output h out_bytes err_bytes returncode =
     (case utf8_decode out_bytes of
        None \<Rightarrow> Inl (Exception (unicode_error_text h out_bytes))
      | Some out \<Rightarrow>
          (case utf8_decode err_bytes of
             None \<Rightarrow> Inl (Exception (unicode_error_text h err_bytes))
           | Some err \<Rightarrow>
               (let stdout_str = strip out; stderr_str = strip err in
                if returncode = 0 then parse_json_output h stdout_str stderr_str returncode
                else
                  (let error_msg = (if stderr_str \<noteq> [] then stderr_str else stdout_str) in
                   Inr \<lparr>success = False, data = None,
                        error = Some (if error_msg \<noteq> [] then error_msg
                                      else lit ''Command failed with exit code ''
                                           @ str_int returncode),
                        stdout = Some stdout_str, stderr = Some stderr_str,
                        exit_code = returncode\<rparr>))))"

text \<open>Lines 110 to 120: the two handlers of the outer \<open>try\<close>.\<close>

definition handlers :: "MCPConfig \<Rightarrow> exn + CLIResult \<Rightarrow> exn + CLIResult" where
  "handlers config body =
     (case body of
        Inr r \<Rightarrow> Inr r
      | Inl (TimeoutError m) \<Rightarrow>
          Inr \<lparr>success = False, data = None,
               error = Some (lit ''Command timed out after ''
                             @ str_int (timeout_seconds config) @ lit '' seconds''),
               stdout = None, stderr = None, exit_code = 124\<rparr>
      | Inl e \<Rightarrow>
          Inr \<lparr>success = False, data = None,
               error = Some (lit ''Unexpected error: '' @ str_exn e),
               stdout = None, stderr = None, exit_code = 1\<rparr>)"

text \<open>
  The whole function. The first component lists the requests made of the host; the
  second is the returned \<open>CLIResult\<close>, or an exception that leaves the function.
\<close>

definition run_imi_command ::
  "host \<Rightarrow> str list \<Rightarrow> MCPConfig \<Rightarrow> host_call list \<times> (exn + CLIResult)" where
  "run_imi_command h args config =
     (let imi_binary = which h (imi_binary_path config) in
      if imi_binary = None \<or> imi_binary = Some [] then
        ([Which (imi_binary_path config)],
         Inr \<lparr>success = False, data = None,
              error = Some (lit ''iMi binary not found: '' @ imi_binary_path config
                            @ lit ''. Ensure iMi is installed and in PATH.''),
              stdout = None, stderr = None, exit_code = 127\<rparr>)
      else
        (let cmd_args = [the imi_binary, lit ''--json''] @ args in
         case create_subprocess_exec h cmd_args of
           Inl e \<Rightarrow>
             ([Which (imi_binary_path config), CreateSubprocessExec cmd_args],
              handlers config (Inl e))
         | Inr process \<Rightarrow>
             ([Which (imi_binary_path config), CreateSubprocessExec cmd_args,
               WaitForCommunicate process (timeout_seconds config)],
              handlers config
                (case wait_for_communicate h process (timeout_seconds config) of
                   Finished out_bytes err_bytes returncode \<Rightarrow>
                     interpret_output h out_bytes err_bytes returncode
                 | Expired out_bytes err_bytes \<Rightarrow> Inl (TimeoutError [])
                 | CommunicateRaised e \<Rightarrow> Inl e))))"


section \<open>tools.py: create\_worktree\<close>

text \<open>\<open>get_config\<close> raises \<open>RuntimeError\<close> while no configuration has been set.\<close>

definition get_config :: "MCPConfig option \<Rightarrow> exn + MCPConfig" where
  "get_config cfg =
     (case cfg of
        None \<Rightarrow> Inl (Exception (lit ''Config not initialized. Call set_config() first.''))
      | Some c \<Rightarrow> Inr c)"

text \<open>Lines 65 to 67: the argument list, extended when \<open>repo\<close> is given and not empty.\<close>

definition add_args :: "str \<Rightarrow> str \<Rightarrow> str option \<Rightarrow> str list" where
  "add_args worktree_type name repo =
     [lit ''add'', worktree_type, name]
     @ (case repo of
          None \<Rightarrow> []
        | Some r \<Rightarrow> if r \<noteq> [] then [lit ''--repo'', r] else [])"

text \<open>
  The tool itself, with the global configuration as an argument. \<open>result.data\<close> counts
  as true when it is a non-empty dict, \<open>result.error\<close> when it is a non-empty string.
\<close>

definition create_worktree ::
  "host \<Rightarrow> MCPConfig option \<Rightarrow> str \<Rightarrow> str \<Rightarrow> str option
     \<Rightarrow> host_call list \<times> (exn + WorktreeResult)" where
  "create_worktree h cfg name worktree_type repo =
     (case get_config cfg of
        Inl e \<Rightarrow> ([], Inl e)
      | Inr config \<Rightarrow>
          (let args = add_args worktree_type name repo
           in case run_imi_command h args config of
                (calls, Inl e) \<Rightarrow> (calls, Inl e)
              | (calls, Inr result) \<Rightarrow>
                  (calls,
                   Inr (if success result \<and> data result \<noteq> None \<and> data result \<noteq> Some []
                        then \<lparr>wr_success = True,
                              wr_message = lit ''Worktree '' @ [0x27] @ name @ [0x27]
                                           @ lit '' created successfully'',
                              wr_data = data result, wr_error = None\<rparr>
                        else \<lparr>wr_success = False,
                              wr_message = lit ''Failed to create worktree '' @ [0x27]
                                           @ name @ [0x27],
                              wr_data = None,
                              wr_error = Some (case error result of
                                                 None \<Rightarrow> lit ''Unknown error''
                                               | Some m \<Rightarrow> if m \<noteq> [] then m
                                                           else lit ''Unknown error'')\<rparr>))))"

section \<open>Words of the specification\<close>

text \<open>
  A result line: its trimmed text starts with an opening brace, decodes as an object and
  has a key \<open>success\<close>. A decoder fault: decoding the trimmed text raises something
  other than \<open>JSONDecodeError\<close>.
\<close>

definition is_result_line :: "host \<Rightarrow> str \<Rightarrow> bool" where
  "is_result_line h line =
     (startswith (strip line) (lit ''{'')
      \<and> (case json_loads h (strip line) of
           Inr d \<Rightarrow> dict_in (lit ''success'') d
         | Inl e \<Rightarrow> False))"

definition decoder_fault :: "host \<Rightarrow> str \<Rightarrow> bool" where
  "decoder_fault h line =
     (startswith (strip line) (lit ''{'')
      \<and> (case json_loads h (strip line) of
           Inl (JSONDecodeError m) \<Rightarrow> False
         | Inl e \<Rightarrow> True
         | Inr d \<Rightarrow> False))"

text \<open>
  The invariant the specification states for an outcome: a successful one carries no
  error text, a failed one carries a non-empty error text.
\<close>

definition outcome_invariant :: "CLIResult \<Rightarrow> bool" where
  "outcome_invariant r =
     ((success r \<longrightarrow> error r = None)
      \<and> (\<not> success r \<longrightarrow> (case error r of None \<Rightarrow> False | Some m \<Rightarrow> m \<noteq> [])))"


section \<open>Concrete hosts for the examples\<close>

definition default_config :: MCPConfig where
  "default_config =
     \<lparr>imi_binary_path = lit ''imi'', timeout_seconds = 30, log_level = lit ''INFO'',
      config_file = None\<rparr>"

text \<open>
  A host that finds \<open>imi\<close> and nothing else, whose child process behaves as scripted, and
  whose JSON decoder knows the listed documents and rejects every other text. The error
  texts are abbreviated; no example coerces a string or a number to \<open>bool\<close>.
\<close>

definition scripted_host :: "communicate_result \<Rightarrow> (str \<times> jdict) list \<Rightarrow> host" where
  "scripted_host outcome docs =
     \<lparr>which = (\<lambda>p. if p = lit ''imi'' then Some (lit ''/usr/local/bin/imi'') else None),
      create_subprocess_exec = (\<lambda>argv. Inr 1),
      wait_for_communicate = (\<lambda>p t. outcome),
      json_loads = (\<lambda>s. case map_of docs s of
                            Some d \<Rightarrow> Inr d
                          | None \<Rightarrow> Inl (JSONDecodeError (lit ''Expecting value''))),
      lax_bool = (\<lambda>v. None),
      unicode_error_text = (\<lambda>b. lit ''invalid start byte''),
      validation_error_text = (\<lambda>s d e. lit ''1 validation error for CLIResult'')\<rparr>"

definition path_doc :: "str \<times> jdict" where
  \<open>path_doc =
     (lit ''{"success": true, "data": {"path": "/x"}}'',
      [(lit ''success'', JBool True), (lit ''data'', JObj [(lit ''path'', JStr (lit ''/x''))])])\<close>

definition branches_doc :: "str \<times> jdict" where
  \<open>branches_doc =
     (lit ''{"success": true, "data": ["main", "feat-x"]}'',
      [(lit ''success'', JBool True),
       (lit ''data'', JArr [JStr (lit ''main''), JStr (lit ''feat-x'')])])\<close>

definition true_error_doc :: "str \<times> jdict" where
  \<open>true_error_doc =
     (lit ''{"success": true, "error": "x"}'',
      [(lit ''success'', JBool True), (lit ''error'', JStr (lit ''x''))])\<close>

definition false_doc :: "str \<times> jdict" where
  \<open>false_doc = (lit ''{"success": false}'', [(lit ''success'', JBool False)])\<close>

definition progress_doc :: "str \<times> jdict" where
  \<open>progress_doc = (lit ''{"step": 1}'', [(lit ''step'', JInt 1)])\<close>


section \<open>Properties of run\_imi\_command\<close>

lemmas example_defs =
  scripted_host_def default_config_def lit_def ascii_def path_doc_def branches_doc_def
  true_error_doc_def false_doc_def progress_doc_def

lemmas run_defs =
  run_imi_command_def interpret_output_def handlers_def parse_json_output_def
  new_CLIResult_def dict_get_def dict_in_def strip_def isspace_def startswith_def

lemma handlers_returns: "\<exists>r. handlers config body = Inr r"
  by (cases body; simp add: handlers_def split: exn.splits)

lemma run_finished:
  assumes "which h (imi_binary_path config) = Some bin" and "bin \<noteq> []"
    and "create_subprocess_exec h ([bin, lit ''--json''] @ args) = Inr p"
    and "wait_for_communicate h p (timeout_seconds config) = Finished out_bytes err_bytes rc"
  shows "run_imi_command h args config =
           ([Which (imi_binary_path config), CreateSubprocessExec ([bin, lit ''--json''] @ args),
             WaitForCommunicate p (timeout_seconds config)],
            handlers config (interpret_output h out_bytes err_bytes rc))"
  using assms by (simp add: run_imi_command_def)

text \<open>
  Claim C6. When the executable name does not resolve on the search path, the call returns
  at once with \<open>success = False\<close>, exit code 127, an error text that names the binary,
  no stdout and no stderr; the only request made of the host is the lookup, so no process
  is spawned.
\<close>

theorem not_found_returns_127:
  assumes "which h (imi_binary_path config) = None"
  shows "run_imi_command h args config =
           ([Which (imi_binary_path config)],
            Inr \<lparr>success = False, data = None,
                 error = Some (lit ''iMi binary not found: '' @ imi_binary_path config
                               @ lit ''. Ensure iMi is installed and in PATH.''),
                 stdout = None, stderr = None, exit_code = 127\<rparr>)
         \<and> (\<forall>argv. CreateSubprocessExec argv \<notin> set (fst (run_imi_command h args config)))"
  using assms by (simp add: run_imi_command_def)

theorem not_found_returns_127_witness:
  "which (scripted_host (Finished [] [] 0) []) (imi_binary_path (default_config\<lparr>imi_binary_path := lit ''imi-dev''\<rparr>)) = None
   \<and> run_imi_command (scripted_host (Finished [] [] 0) []) [lit ''list'']
        (default_config\<lparr>imi_binary_path := lit ''imi-dev''\<rparr>) =
       ([Which (lit ''imi-dev'')],
        Inr \<lparr>success = False, data = None,
             error = Some (lit ''iMi binary not found: imi-dev. Ensure iMi is installed and in PATH.''),
             stdout = None, stderr = None, exit_code = 127\<rparr>)"
  using not_found_returns_127 [of "scripted_host (Finished [] [] 0) []"
      "default_config\<lparr>imi_binary_path := lit ''imi-dev''\<rparr>" "[lit ''list'']"]
  by (simp add: example_defs)

text \<open>
  Claim C5. When the child has not finished as the configured timeout elapses, the result
  has \<open>success = False\<close>, exit code 124, an error text naming the configured number of
  seconds, and neither stdout nor stderr, whatever the child had written by then.
\<close>

theorem timeout_returns_124:
  assumes "which h (imi_binary_path config) = Some bin" and "bin \<noteq> []"
    and "create_subprocess_exec h ([bin, lit ''--json''] @ args) = Inr p"
    and "wait_for_communicate h p (timeout_seconds config) = Expired partial_out partial_err"
  shows "snd (run_imi_command h args config) =
           Inr \<lparr>success = False, data = None,
                error = Some (lit ''Command timed out after ''
                              @ str_int (timeout_seconds config) @ lit '' seconds''),
                stdout = None, stderr = None, exit_code = 124\<rparr>"
  using assms by (simp add: run_imi_command_def handlers_def)

theorem timeout_returns_124_witness:
  "snd (run_imi_command (scripted_host (Expired (ascii ''Cloning...'') (ascii ''warning'')) [])
          [lit ''add''] default_config) =
     Inr \<lparr>success = False, data = None,
          error = Some (lit ''Command timed out after 30 seconds''),
          stdout = None, stderr = None, exit_code = 124\<rparr>"
  using timeout_returns_124 [of "scripted_host (Expired (ascii ''Cloning...'') (ascii ''warning'')) []"
      default_config "lit ''/usr/local/bin/imi''" "[lit ''add'']" 1 "ascii ''Cloning...''" "ascii ''warning''"]
  by (simp add: example_defs str_int_def digits.simps)

text \<open>
  A failing spawn and undecodable output are two of the error classes: both end in the
  generic handler, with exit code 1 and the text of the exception.
\<close>

lemma spawn_failure_returns_1:
  assumes "which h (imi_binary_path config) = Some bin" and "bin \<noteq> []"
    and "create_subprocess_exec h ([bin, lit ''--json''] @ args) = Inl (Exception m)"
  shows "snd (run_imi_command h args config) =
           Inr \<lparr>success = False, data = None, error = Some (lit ''Unexpected error: '' @ m),
                stdout = None, stderr = None, exit_code = 1\<rparr>"
  using assms by (simp add: run_imi_command_def handlers_def)

lemma undecodable_stdout_returns_1:
  assumes "which h (imi_binary_path config) = Some bin" and "bin \<noteq> []"
    and "create_subprocess_exec h ([bin, lit ''--json''] @ args) = Inr p"
    and "wait_for_communicate h p (timeout_seconds config) = Finished out_bytes err_bytes rc"
    and "utf8_decode out_bytes = None"
  shows "snd (run_imi_command h args config) =
           Inr \<lparr>success = False, data = None,
                error = Some (lit ''Unexpected error: '' @ unicode_error_text h out_bytes),
                stdout = None, stderr = None, exit_code = 1\<rparr>"
  using assms by (simp add: run_imi_command_def interpret_output_def handlers_def)

text \<open>
  Claim C8. For every host, argument list and configuration the function returns a
  \<open>CLIResult\<close>: an unresolved binary, a failing spawn, a timeout, a non-zero exit,
  undecodable bytes and malformed output all end in a returned value, never in an
  exception that leaves the function.
\<close>

theorem never_raises:
  "\<exists>r. snd (run_imi_command h args config) = Inr r"
  using handlers_returns
  by (simp add: run_imi_command_def Let_def split: sum.splits)

theorem never_raises_witness:
  "\<exists>r. snd (run_imi_command (scripted_host (Finished [0xFF] [] 0) []) [] default_config) = Inr r"
  using never_raises [of "scripted_host (Finished [0xFF] [] 0) []" "[]" default_config] .


subsection \<open>The backward scan\<close>

lemma find_json_line_none:
  "\<forall>l\<in>set ls. \<not> is_result_line h l \<and> \<not> decoder_fault h l \<Longrightarrow> find_json_line h ls = Inr None"
  by (induction ls) (auto simp: is_result_line_def decoder_fault_def split: sum.splits exn.splits)

lemma find_json_line_some:
  "\<forall>l\<in>set pre. \<not> is_result_line h l \<and> \<not> decoder_fault h l \<Longrightarrow> is_result_line h line
   \<Longrightarrow> find_json_line h (pre @ line # post) = Inr (Some (strip line))"
  by (induction pre) (auto simp: is_result_line_def decoder_fault_def split: sum.splits exn.splits)

lemma find_json_line_selected:
  "find_json_line h ls = Inr (Some l) \<Longrightarrow>
     \<exists>pre line post. ls = pre @ line # post
       \<and> (\<forall>x\<in>set pre. \<not> is_result_line h x \<and> \<not> decoder_fault h x)
       \<and> is_result_line h line \<and> l = strip line"
proof (induction ls)
  case Nil
  then show ?case by simp
next
  case (Cons a ls)
  show ?case
  proof (cases "is_result_line h a")
    case True
    with Cons.prems have "l = strip a"
      by (auto simp: is_result_line_def split: sum.splits)
    with True have "a # ls = [] @ a # ls
        \<and> (\<forall>x\<in>set []. \<not> is_result_line h x \<and> \<not> decoder_fault h x)
        \<and> is_result_line h a \<and> l = strip a"
      by simp
    then show ?thesis by blast
  next
    case False
    with Cons.prems have rest: "find_json_line h ls = Inr (Some l)" and nf: "\<not> decoder_fault h a"
      by (auto simp: is_result_line_def decoder_fault_def split: sum.splits exn.splits if_splits)
    from Cons.IH [OF rest] obtain pre line post where
      "ls = pre @ line # post"
      "\<forall>x\<in>set pre. \<not> is_result_line h x \<and> \<not> decoder_fault h x"
      "is_result_line h line" "l = strip line"
      by blast
    with False nf have "a # ls = (a # pre) @ line # post
        \<and> (\<forall>x\<in>set (a # pre). \<not> is_result_line h x \<and> \<not> decoder_fault h x)
        \<and> is_result_line h line \<and> l = strip line"
      by simp
    then show ?thesis by blast
  qed
qed

text \<open>
  Stripping the whole text first, as line 52 does, changes neither the trimmed lines nor
  their order, and the scan looks at trimmed lines only.
\<close>

lemma split_nl_nonempty: "split_nl s \<noteq> []"
  by (induction s) (auto split: list.splits)

lemma strip_Nil: "strip [] = []"
  by (simp add: strip_def)

lemma strip_space_Cons: "isspace c \<Longrightarrow> strip (c # l) = strip l"
  by (simp add: strip_def)

lemma strip_space_snoc: "isspace c \<Longrightarrow> strip (l @ [c]) = strip l"
proof (cases "\<forall>x\<in>set l. isspace x")
  case True
  assume c: "isspace c"
  from True c have "dropWhile isspace (l @ [c]) = []"
    by (simp add: dropWhile_eq_Nil_conv)
  moreover from True have "dropWhile isspace l = []"
    by (simp add: dropWhile_eq_Nil_conv)
  ultimately show ?thesis by (simp only: strip_def dropWhile.simps rev.simps)
next
  case False
  assume c: "isspace c"
  from False have "dropWhile isspace (l @ [c]) = dropWhile isspace l @ [c]"
    by (auto simp: dropWhile_append1)
  with c show ?thesis by (simp add: strip_def)
qed

lemma split_nl_snoc:
  "split_nl (xs @ [c]) =
     (if c = 0x0A then split_nl xs @ [[]]
      else butlast (split_nl xs) @ [last (split_nl xs) @ [c]])"
proof (induction xs)
  case Nil
  show ?case by simp
next
  case (Cons x xs)
  show ?case
  proof (cases "split_nl xs")
    case Nil
    with split_nl_nonempty show ?thesis by blast
  next
    case (Cons l ls)
    with Cons.IH show ?thesis
      by (cases "split_nl (xs @ [c])") (auto split: if_splits)
  qed
qed

lemma trimmed_lines_space_Cons:
  assumes "isspace c"
  shows "trimmed_lines (c # cs) = trimmed_lines cs"
proof (cases "split_nl cs")
  case Nil
  with split_nl_nonempty show ?thesis by blast
next
  case (Cons l ls)
  with assms show ?thesis
    by (simp add: trimmed_lines_def strip_Nil strip_space_Cons)
qed

lemma trimmed_lines_space_snoc:
  assumes "isspace c"
  shows "trimmed_lines (xs @ [c]) = trimmed_lines xs"
proof -
  have ne: "split_nl xs \<noteq> []" by (rule split_nl_nonempty)
  then have dec: "split_nl xs = butlast (split_nl xs) @ [last (split_nl xs)]" by simp
  show ?thesis
  proof (cases "c = 0x0A")
    case True
    then show ?thesis by (simp add: trimmed_lines_def split_nl_snoc strip_Nil)
  next
    case False
    have "trimmed_lines (xs @ [c]) =
            filter (\<lambda>l. l \<noteq> []) (map strip (butlast (split_nl xs)))
            @ filter (\<lambda>l. l \<noteq> []) [strip (last (split_nl xs))]"
      using False assms by (simp add: trimmed_lines_def split_nl_snoc strip_space_snoc)
    also have "\<dots> = filter (\<lambda>l. l \<noteq> []) (map strip (butlast (split_nl xs) @ [last (split_nl xs)]))"
      by simp
    also have "\<dots> = trimmed_lines xs"
      using dec by (simp add: trimmed_lines_def)
    finally show ?thesis .
  qed
qed

lemma trimmed_lines_lstrip: "trimmed_lines (dropWhile isspace s) = trimmed_lines s"
  by (induction s) (simp_all add: trimmed_lines_space_Cons)

lemma trimmed_lines_rstrip: "trimmed_lines (rev (dropWhile isspace (rev s))) = trimmed_lines s"
  by (induction s rule: rev_induct) (simp_all add: trimmed_lines_space_snoc)

lemma trimmed_lines_strip: "trimmed_lines (strip s) = trimmed_lines s"
  by (simp add: strip_def trimmed_lines_rstrip trimmed_lines_lstrip)

lemma strip_idem: "strip (strip s) = strip s"
proof -
  let ?a = "dropWhile isspace s"
  let ?b = "dropWhile isspace (rev ?a)"
  have b: "dropWhile isspace ?b = ?b"
    by (simp add: dropWhile_idem)
  have "dropWhile isspace (rev ?b) = rev ?b"
  proof (cases "?b = []")
    case True
    then show ?thesis by (simp only: rev.simps dropWhile.simps)
  next
    case False
    have "rev ?a = takeWhile isspace (rev ?a) @ ?b" by simp
    then have "?a = rev ?b @ rev (takeWhile isspace (rev ?a))"
      by (metis rev_append rev_rev_ident)
    with False have "hd (rev ?b) = hd ?a"
      by (metis hd_append2 rev_is_Nil_conv)
    moreover have "?a \<noteq> []"
    proof
      assume "?a = []"
      then have "?b = []" by (simp only: rev.simps dropWhile.simps)
      with False show False by contradiction
    qed
    then have "\<not> isspace (hd ?a)" by (rule hd_dropWhile)
    ultimately show ?thesis
      by (simp add: dropWhile_eq_self_iff)
  qed
  then show ?thesis
    by (simp add: strip_def b)
qed

lemma find_json_line_trimmed:
  "find_json_line h ls = find_json_line h (filter (\<lambda>l. l \<noteq> []) (map strip ls))"
proof (induction ls)
  case Nil
  show ?case by simp
next
  case (Cons line rest)
  show ?case
  proof (cases "strip line = []")
    case True
    then show ?thesis using Cons.IH by (simp add: startswith_def lit_def)
  next
    case False
    then show ?thesis using Cons.IH
      by (auto simp: strip_idem split: sum.splits exn.splits)
  qed
qed

lemma find_json_line_strip:
  "find_json_line h (rev (split_nl (strip s))) = find_json_line h (rev (split_nl s))"
proof -
  have "find_json_line h (rev (split_nl (strip s))) = find_json_line h (rev (trimmed_lines (strip s)))"
    by (subst find_json_line_trimmed) (simp add: trimmed_lines_def rev_map rev_filter)
  also have "\<dots> = find_json_line h (rev (trimmed_lines s))"
    by (simp add: trimmed_lines_strip)
  also have "\<dots> = find_json_line h (rev (split_nl s))"
    by (subst (2) find_json_line_trimmed) (simp add: trimmed_lines_def rev_map rev_filter)
  finally show ?thesis .
qed

lemma interpret_decoded:
  assumes "utf8_decode out_bytes = Some out" and "utf8_decode err_bytes = Some err"
  shows "interpret_output h out_bytes err_bytes rc =
           (if rc = 0 then parse_json_output h (strip out) (strip err) rc
            else Inr \<lparr>success = False, data = None,
                      error = Some (if strip err \<noteq> [] then strip err
                                    else if strip out \<noteq> [] then strip out
                                    else lit ''Command failed with exit code '' @ str_int rc),
                      stdout = Some (strip out), stderr = Some (strip err), exit_code = rc\<rparr>)"
  using assms by (simp add: interpret_output_def Let_def)

lemma parse_plain:
  assumes "\<forall>l\<in>set (split_nl out). \<not> is_result_line h l \<and> \<not> decoder_fault h l"
  shows "parse_json_output h (strip out) err rc =
           Inr \<lparr>success = True, data = None, error = None, stdout = Some (strip out),
                stderr = Some err, exit_code = rc\<rparr>"
proof -
  have "find_json_line h (rev (split_nl out)) = Inr None"
    using assms by (intro find_json_line_none) simp
  then have "find_json_line h (rev (split_nl (strip out))) = Inr None"
    by (simp add: find_json_line_strip)
  then show ?thesis by (simp add: parse_json_output_def)
qed

lemma strip_result_line_nonempty: "is_result_line h line \<Longrightarrow> strip line \<noteq> []"
  by (auto simp: is_result_line_def startswith_def lit_def)

lemma parse_selected:
  assumes "split_nl out = before @ line # after"
    and "is_result_line h line"
    and "\<forall>l\<in>set after. \<not> is_result_line h l \<and> \<not> decoder_fault h l"
    and "json_loads h (strip line) = Inr d"
  shows "parse_json_output h (strip out) err rc =
           (case new_CLIResult h (dict_get d (lit ''success'') (JBool True))
                   (dict_get d (lit ''data'') JNull) (dict_get d (lit ''error'') JNull)
                   (Some (strip out)) None rc of
              Inl (JSONDecodeError m) \<Rightarrow>
                Inr \<lparr>success = False, data = None,
                     error = Some (lit ''Failed to parse JSON output: '' @ m),
                     stdout = Some (strip out), stderr = Some err, exit_code = rc\<rparr>
            | r \<Rightarrow> r)"
proof -
  have "find_json_line h (rev after @ line # rev before) = Inr (Some (strip line))"
    using assms(2,3) by (intro find_json_line_some) simp_all
  then have "find_json_line h (rev (split_nl (strip out))) = Inr (Some (strip line))"
    by (simp add: assms(1) find_json_line_strip)
  then show ?thesis
    using assms(4) strip_result_line_nonempty [OF assms(2)]
    by (simp add: parse_json_output_def)
qed

subsection \<open>Exit status zero without a result line\<close>

lemma plain_text_result:
  assumes "which h (imi_binary_path config) = Some bin" and "bin \<noteq> []"
    and "create_subprocess_exec h ([bin, lit ''--json''] @ args) = Inr p"
    and "wait_for_communicate h p (timeout_seconds config) = Finished out_bytes err_bytes 0"
    and "utf8_decode out_bytes = Some out" and "utf8_decode err_bytes = Some err"
    and "\<forall>l\<in>set (split_nl out). \<not> is_result_line h l \<and> \<not> decoder_fault h l"
  shows "snd (run_imi_command h args config) =
           Inr \<lparr>success = True, data = None, error = None, stdout = Some (strip out),
                stderr = Some (strip err), exit_code = 0\<rparr>"
  by (simp add: run_finished [OF assms(1-4)] interpret_decoded [OF assms(5,6)]
        parse_plain [OF assms(7)] handlers_def)

text \<open>
  Claim C3, as amended. For an execution with exit status zero whose two streams decode
  as UTF-8, and whose stdout has no result line and no line with a decoder fault, the
  result is a success without payload and without error text, with exit code 0; stdout
  and stderr are kept with their leading and trailing white space stripped.
\<close>

theorem plain_output_is_success:
  assumes "which h (imi_binary_path config) = Some bin" and "bin \<noteq> []"
    and "create_subprocess_exec h ([bin, lit ''--json''] @ args) = Inr p"
    and "wait_for_communicate h p (timeout_seconds config) = Finished out_bytes err_bytes 0"
    and "utf8_decode out_bytes = Some out" and "utf8_decode err_bytes = Some err"
    and "\<forall>l\<in>set (split_nl out). \<not> is_result_line h l \<and> \<not> decoder_fault h l"
  shows "snd (run_imi_command h args config) =
           Inr \<lparr>success = True, data = None, error = None, stdout = Some (strip out),
                stderr = Some (strip err), exit_code = 0\<rparr>"
  using assms by (rule plain_text_result)

theorem plain_output_is_success_witness:
  \<open>snd (run_imi_command
          (scripted_host
             (Finished (ascii ''Preparing worktree'' @ [0x0A] @ ascii ''{not json}'' @ [0x0A])
                       (ascii '' warning: detached HEAD'' @ [0x0A]) 0) [])
          [lit ''add''] default_config) =
     Inr \<lparr>success = True, data = None, error = None,
          stdout = Some (lit ''Preparing worktree'' @ [0x0A] @ lit ''{not json}''),
          stderr = Some (lit ''warning: detached HEAD''), exit_code = 0\<rparr>\<close>
  using plain_output_is_success
    [of "scripted_host
           (Finished (ascii ''Preparing worktree'' @ [0x0A] @ ascii ''{not json}'' @ [0x0A])
                     (ascii '' warning: detached HEAD'' @ [0x0A]) 0) []"
        default_config "lit ''/usr/local/bin/imi''" "[lit ''add'']" 1
        "ascii ''Preparing worktree'' @ [0x0A] @ ascii ''{not json}'' @ [0x0A]"
        "ascii '' warning: detached HEAD'' @ [0x0A]"
        "lit ''Preparing worktree'' @ [0x0A] @ lit ''{not json}'' @ [0x0A]"
        "lit '' warning: detached HEAD'' @ [0x0A]"]
  by (simp add: example_defs strip_def isspace_def is_result_line_def decoder_fault_def
        startswith_def)

text \<open>
  Claim C3 as stated fails on its own example: the captured stdout
  \<open>plain text, no JSON\<close> followed by a line feed comes back without the line feed.
\<close>

theorem plain_output_not_verbatim:
  "snd (run_imi_command
          (scripted_host (Finished (ascii ''plain text, no JSON'' @ [0x0A]) [] 0) [])
          [lit ''list''] default_config) =
     Inr \<lparr>success = True, data = None, error = None,
          stdout = Some (lit ''plain text, no JSON''), stderr = Some [], exit_code = 0\<rparr>
   \<and> utf8_decode (ascii ''plain text, no JSON'' @ [0x0A]) = Some (lit ''plain text, no JSON'' @ [0x0A])
   \<and> lit ''plain text, no JSON'' \<noteq> lit ''plain text, no JSON'' @ [0x0A]"
  by (simp add: example_defs run_defs)

subsection \<open>Non-zero exit status, stderr, and the child on a timeout\<close>

text \<open>
  Claim C4, as amended. For an execution with a non-zero exit status whose two streams
  decode as UTF-8, the result has \<open>success = False\<close> and the exit code of the process;
  its error text is the stripped stderr if that is not empty, else the stripped stdout if
  that is not empty, else the generated text that ends in the exit status.
\<close>

theorem failure_reports_exit_and_message:
  assumes "which h (imi_binary_path config) = Some bin" and "bin \<noteq> []"
    and "create_subprocess_exec h ([bin, lit ''--json''] @ args) = Inr p"
    and "wait_for_communicate h p (timeout_seconds config) = Finished out_bytes err_bytes rc"
    and "rc \<noteq> 0"
    and "utf8_decode out_bytes = Some out" and "utf8_decode err_bytes = Some err"
  shows "snd (run_imi_command h args config) =
           Inr \<lparr>success = False, data = None,
                error = Some (if strip err \<noteq> [] then strip err
                              else if strip out \<noteq> [] then strip out
                              else lit ''Command failed with exit code '' @ str_int rc),
                stdout = Some (strip out), stderr = Some (strip err), exit_code = rc\<rparr>"
  by (simp add: run_finished [OF assms(1-4)] interpret_decoded [OF assms(6,7)] assms(5)
        handlers_def)

theorem failure_reports_exit_and_message_witness:
  "snd (run_imi_command
          (scripted_host (Finished [] (ascii ''permission denied'' @ [0x0A]) 2) [])
          [lit ''add''] default_config) =
     Inr \<lparr>success = False, data = None, error = Some (lit ''permission denied''),
          stdout = Some [], stderr = Some (lit ''permission denied''), exit_code = 2\<rparr>"
  using failure_reports_exit_and_message
    [of "scripted_host (Finished [] (ascii ''permission denied'' @ [0x0A]) 2) []"
        default_config "lit ''/usr/local/bin/imi''" "[lit ''add'']" 1
        "[]" "ascii ''permission denied'' @ [0x0A]" 2 "[]" "lit ''permission denied'' @ [0x0A]"]
  by (simp add: example_defs strip_def isspace_def)

text \<open>
  Claim C4 as stated fails when a stream is not UTF-8: with exit status 2 and the single
  byte \<open>0xFF\<close> on stderr the decoding raises, and the result carries exit code 1 and the
  text of that exception.
\<close>

theorem undecodable_failure_loses_exit_code:
  "snd (run_imi_command (scripted_host (Finished [] [0xFF] 2) []) [lit ''add''] default_config) =
     Inr \<lparr>success = False, data = None,
          error = Some (lit ''Unexpected error: invalid start byte''),
          stdout = None, stderr = None, exit_code = 1\<rparr>"
  by (simp add: example_defs run_defs)

text \<open>
  Claim C9. With a result line on stdout and a warning on stderr, the returned result has
  no stderr: the constructor call of lines 75 to 81 passes \<open>stdout\<close> only, where the
  three other returns after the process has run pass \<open>stderr\<close> too.
\<close>

theorem stderr_dropped_with_result_line:
  \<open>snd (run_imi_command
          (scripted_host
             (Finished (ascii ''{"success": true, "data": {"path": "/x"}}'' @ [0x0A])
                       (ascii ''warning: detached HEAD'' @ [0x0A]) 0)
             [path_doc])
          [lit ''add''] default_config) =
     Inr \<lparr>success = True, data = Some [(lit ''path'', JStr (lit ''/x''))], error = None,
          stdout = Some (lit ''{"success": true, "data": {"path": "/x"}}''),
          stderr = None, exit_code = 0\<rparr>\<close>
  by (simp add: example_defs run_defs)

text \<open>
  Claim C7, as amended. On a timeout the function makes three requests of the host, the
  lookup, the spawn and the bounded wait, and returns the timeout result; it makes no
  request to kill the child, which is left running with its process handle open.
\<close>

theorem timeout_leaves_child_running:
  assumes "which h (imi_binary_path config) = Some bin" and "bin \<noteq> []"
    and "create_subprocess_exec h ([bin, lit ''--json''] @ args) = Inr p"
    and "wait_for_communicate h p (timeout_seconds config) = Expired partial_out partial_err"
  shows "run_imi_command h args config =
           ([Which (imi_binary_path config),
             CreateSubprocessExec ([bin, lit ''--json''] @ args),
             WaitForCommunicate p (timeout_seconds config)],
            Inr \<lparr>success = False, data = None,
                 error = Some (lit ''Command timed out after ''
                               @ str_int (timeout_seconds config) @ lit '' seconds''),
                 stdout = None, stderr = None, exit_code = 124\<rparr>)
         \<and> left_running h (fst (run_imi_command h args config)) = [p]"
  using assms by (simp add: run_imi_command_def handlers_def)

theorem timeout_leaves_child_running_witness:
  "run_imi_command (scripted_host (Expired [] []) []) [lit ''sync''] default_config =
     ([Which (lit ''imi''),
       CreateSubprocessExec [lit ''/usr/local/bin/imi'', lit ''--json'', lit ''sync''],
       WaitForCommunicate 1 30],
      Inr \<lparr>success = False, data = None,
           error = Some (lit ''Command timed out after 30 seconds''),
           stdout = None, stderr = None, exit_code = 124\<rparr>)
   \<and> left_running (scripted_host (Expired [] []) [])
         (fst (run_imi_command (scripted_host (Expired [] []) []) [lit ''sync''] default_config))
       = [1]"
  using timeout_leaves_child_running
    [of "scripted_host (Expired [] []) []" default_config "lit ''/usr/local/bin/imi''"
        "[lit ''sync'']" 1 "[]" "[]"]
  by (simp add: example_defs str_int_def digits.simps)

text \<open>
  Claim C7 as stated fails: after a run whose wait expires the spawned child is still
  running. A kill request after the wait, which the function does not make, would have
  ended it.
\<close>

theorem child_left_running_on_timeout:
  "left_running (scripted_host (Expired (ascii ''Cloning...'') []) [])
     (fst (run_imi_command (scripted_host (Expired (ascii ''Cloning...'') []) [])
             [lit ''add''] default_config)) = [1]
   \<and> left_running (scripted_host (Expired (ascii ''Cloning...'') []) [])
       (fst (run_imi_command (scripted_host (Expired (ascii ''Cloning...'') []) [])
               [lit ''add''] default_config) @ [Kill 1]) = []"
  by (simp add: example_defs run_imi_command_def)


subsection \<open>The create\_worktree tool\<close>

text \<open>
  Claim C10. When the command succeeds with plain text (exit status zero, no result line),
  \<open>create_worktree\<close> reports a failure: \<open>success = False\<close>, the message
  \<open>Failed to create worktree '<name>'\<close>, no data and the error \<open>Unknown error\<close>.
\<close>

theorem create_worktree_fails_on_plain_success:
  assumes "which h (imi_binary_path config) = Some bin" and "bin \<noteq> []"
    and "create_subprocess_exec h ([bin, lit ''--json''] @ add_args worktree_type name repo)
           = Inr p"
    and "wait_for_communicate h p (timeout_seconds config) = Finished out_bytes err_bytes 0"
    and "utf8_decode out_bytes = Some out" and "utf8_decode err_bytes = Some err"
    and "\<forall>l\<in>set (split_nl out). \<not> is_result_line h l \<and> \<not> decoder_fault h l"
  shows "snd (create_worktree h (Some config) name worktree_type repo) =
           Inr \<lparr>wr_success = False,
                wr_message = lit ''Failed to create worktree '' @ [0x27] @ name @ [0x27],
                wr_data = None, wr_error = Some (lit ''Unknown error'')\<rparr>"
proof -
  let ?run = "run_imi_command h (add_args worktree_type name repo) config"
  have "snd ?run =
          Inr \<lparr>success = True, data = None, error = None, stdout = Some (strip out),
               stderr = Some (strip err), exit_code = 0\<rparr>"
    using assms by (rule plain_text_result)
  then obtain calls where
    "?run = (calls, Inr \<lparr>success = True, data = None, error = None, stdout = Some (strip out),
                         stderr = Some (strip err), exit_code = 0\<rparr>)"
    by (cases ?run) simp
  then show ?thesis
    by (simp add: create_worktree_def get_config_def)
qed

theorem create_worktree_fails_on_plain_success_witness:
  "snd (create_worktree
          (scripted_host (Finished (ascii ''Created worktree feat-login'' @ [0x0A]) [] 0) [])
          (Some default_config) (lit ''login'') (lit ''feat'') None) =
     Inr \<lparr>wr_success = False, wr_message = lit ''Failed to create worktree '' @ [0x27] @ lit ''login'' @ [0x27],
          wr_data = None, wr_error = Some (lit ''Unknown error'')\<rparr>"
  using create_worktree_fails_on_plain_success
    [of "scripted_host (Finished (ascii ''Created worktree feat-login'' @ [0x0A]) [] 0) []"
        default_config "lit ''/usr/local/bin/imi''" "lit ''feat''" "lit ''login''" None 1
        "ascii ''Created worktree feat-login'' @ [0x0A]" "[]"
        "lit ''Created worktree feat-login'' @ [0x0A]" "[]"]
  by (simp add: example_defs add_args_def strip_def isspace_def is_result_line_def
        decoder_fault_def startswith_def)

subsection \<open>Exit status zero with a result line\<close>

text \<open>
  Claim C1, as amended. For an execution with exit status zero whose two streams decode
  as UTF-8: when \<open>line\<close> is a result line of stdout and no later line is a result
  line or has a decoder fault, the backward scan selects the trimmed \<open>line\<close>; and
  when the \<open>success\<close>, \<open>data\<close> and \<open>error\<close> fields of its object pass the
  validation of \<open>CLIResult\<close>, the result carries them as \<open>success\<close>, \<open>data\<close> and
  \<open>error\<close>, with exit code 0.
\<close>

theorem result_line_fields_are_returned:
  assumes "which h (imi_binary_path config) = Some bin" and "bin \<noteq> []"
    and "create_subprocess_exec h ([bin, lit ''--json''] @ args) = Inr p"
    and "wait_for_communicate h p (timeout_seconds config) = Finished out_bytes err_bytes 0"
    and "utf8_decode out_bytes = Some out" and "utf8_decode err_bytes = Some err"
    and "split_nl out = before @ line # after"
    and "is_result_line h line"
    and "\<forall>l\<in>set after. \<not> is_result_line h l \<and> \<not> decoder_fault h l"
    and "json_loads h (strip line) = Inr d"
    and "validate_bool h (dict_get d (lit ''success'') (JBool True)) = Some ok"
    and "validate_opt_dict (dict_get d (lit ''data'') JNull) = Some payload"
    and "validate_opt_str (dict_get d (lit ''error'') JNull) = Some message"
  shows "find_json_line h (rev (split_nl (strip out))) = Inr (Some (strip line))
         \<and> (\<exists>r. snd (run_imi_command h args config) = Inr r
                \<and> success r = ok \<and> data r = payload \<and> error r = message
                \<and> exit_code r = 0)"
proof
  have "find_json_line h (rev after @ line # rev before) = Inr (Some (strip line))"
    using assms(8,9) by (intro find_json_line_some) simp_all
  then show "find_json_line h (rev (split_nl (strip out))) = Inr (Some (strip line))"
    by (simp add: assms(7) find_json_line_strip)
next
  show "\<exists>r. snd (run_imi_command h args config) = Inr r
            \<and> success r = ok \<and> data r = payload \<and> error r = message \<and> exit_code r = 0"
    by (simp add: run_finished [OF assms(1-4)] interpret_decoded [OF assms(5,6)]
          parse_selected [OF assms(7-10)] new_CLIResult_def assms(11-13) handlers_def)
qed

theorem result_line_fields_are_returned_witness:
  \<open>\<exists>r. snd (run_imi_command
              (scripted_host
                 (Finished (ascii ''Cloning...'' @ [0x0A]
                            @ ascii ''{"success": true, "data": {"path": "/x"}}'' @ [0x0A]
                            @ ascii ''{"step": 1}'' @ [0x0A] @ ascii ''{done'' @ [0x0A])
                           [] 0)
                 [path_doc, progress_doc])
              [lit ''add''] default_config) = Inr r
        \<and> success r = True \<and> data r = Some [(lit ''path'', JStr (lit ''/x''))]
        \<and> error r = None \<and> exit_code r = 0\<close>
  using result_line_fields_are_returned
    [of \<open>scripted_host
           (Finished (ascii ''Cloning...'' @ [0x0A]
                      @ ascii ''{"success": true, "data": {"path": "/x"}}'' @ [0x0A]
                      @ ascii ''{"step": 1}'' @ [0x0A] @ ascii ''{done'' @ [0x0A])
                     [] 0)
           [path_doc, progress_doc]\<close>
        default_config \<open>lit ''/usr/local/bin/imi''\<close> \<open>[lit ''add'']\<close> 1
        \<open>ascii ''Cloning...'' @ [0x0A]
         @ ascii ''{"success": true, "data": {"path": "/x"}}'' @ [0x0A]
         @ ascii ''{"step": 1}'' @ [0x0A] @ ascii ''{done'' @ [0x0A]\<close>
        \<open>[]\<close>
        \<open>lit ''Cloning...'' @ [0x0A]
         @ lit ''{"success": true, "data": {"path": "/x"}}'' @ [0x0A]
         @ lit ''{"step": 1}'' @ [0x0A] @ lit ''{done'' @ [0x0A]\<close>
        \<open>[]\<close>
        \<open>[lit ''Cloning...'']\<close>
        \<open>fst path_doc\<close>
        \<open>[fst progress_doc, lit ''{done'', []]\<close>
        \<open>snd path_doc\<close> True \<open>Some [(lit ''path'', JStr (lit ''/x''))]\<close> None]
  by (simp add: example_defs strip_def isspace_def is_result_line_def decoder_fault_def
        startswith_def dict_get_def dict_in_def)

text \<open>
  Claim C1 as stated fails when a field does not fit its type: for the result line
  \<open>{"success": true, "data": ["main", "feat-x"]}\<close>, whose \<open>data\<close> is a list and not an
  object, the constructor of \<open>CLIResult\<close> raises, and the outer handler returns a
  failure with exit code 1.
\<close>

theorem list_payload_is_rejected:
  \<open>is_result_line (scripted_host (Finished [] [] 0) [branches_doc])
       (lit ''{"success": true, "data": ["main", "feat-x"]}'')
   \<and> snd (run_imi_command
            (scripted_host
               (Finished (ascii ''{"success": true, "data": ["main", "feat-x"]}'' @ [0x0A]) [] 0)
               [branches_doc])
            [lit ''list''] default_config) =
       Inr \<lparr>success = False, data = None,
            error = Some (lit ''Unexpected error: 1 validation error for CLIResult''),
            stdout = None, stderr = None, exit_code = 1\<rparr>\<close>
  by (simp add: example_defs run_defs is_result_line_def)


subsection \<open>The invariant of outcomes\<close>

lemma handlers_exn_invariant:
  "handlers config (Inl e) = Inr r \<Longrightarrow> outcome_invariant r"
  by (cases e) (auto simp: handlers_def outcome_invariant_def lit_def)

lemma handlers_value: "handlers config (Inr r') = Inr r \<Longrightarrow> r = r'"
  by (simp add: handlers_def)

lemma new_CLIResult_fields:
  assumes "new_CLIResult h s d e out err code = Inr r"
  shows "validate_bool h s = Some (success r) \<and> validate_opt_dict d = Some (data r)
         \<and> validate_opt_str e = Some (error r)"
  using assms by (auto simp: new_CLIResult_def split: option.splits)

lemma parse_violation:
  assumes "parse_json_output h (strip out) err rc = Inr r"
    and "\<not> outcome_invariant r"
  shows "\<exists>before line after d.
           split_nl out = before @ line # after \<and> is_result_line h line
           \<and> (\<forall>l\<in>set after. \<not> is_result_line h l \<and> \<not> decoder_fault h l)
           \<and> json_loads h (strip line) = Inr d
           \<and> validate_bool h (dict_get d (lit ''success'') (JBool True)) = Some (success r)
           \<and> validate_opt_dict (dict_get d (lit ''data'') JNull) = Some (data r)
           \<and> validate_opt_str (dict_get d (lit ''error'') JNull) = Some (error r)"
proof (cases "find_json_line h (rev (split_nl (strip out)))")
  case (Inl e)
  with assms show ?thesis
    by (cases e) (auto simp: parse_json_output_def outcome_invariant_def lit_def)
next
  case (Inr found)
  show ?thesis
  proof (cases found)
    case None
    with Inr assms show ?thesis
      by (auto simp: parse_json_output_def outcome_invariant_def)
  next
    case (Some l)
    with Inr have "find_json_line h (rev (split_nl out)) = Inr (Some l)"
      by (simp add: find_json_line_strip)
    then obtain pre line post where sel:
      "rev (split_nl out) = pre @ line # post"
      "\<forall>x\<in>set pre. \<not> is_result_line h x \<and> \<not> decoder_fault h x"
      "is_result_line h line" "l = strip line"
      using find_json_line_selected by blast
    from sel(1) have "rev (rev (split_nl out)) = rev (pre @ line # post)" by simp
    then have lines: "split_nl out = rev post @ line # rev pre" by simp
    from sel(3) obtain d where d: "json_loads h (strip line) = Inr d"
      by (auto simp: is_result_line_def split: sum.splits)
    from sel(3) have ne: "strip line \<noteq> []" by (rule strip_result_line_nonempty)
    let ?new = "new_CLIResult h (dict_get d (lit ''success'') (JBool True))
                  (dict_get d (lit ''data'') JNull) (dict_get d (lit ''error'') JNull)
                  (Some (strip out)) None rc"
    have "?new = Inr r"
    proof (cases ?new)
      case (Inl e)
      then obtain m where "e = Exception m"
        by (auto simp: new_CLIResult_def split: option.splits)
      with Inl assms(1) Inr Some sel(4) d ne show ?thesis
        by (simp add: parse_json_output_def)
    next
      case (Inr r')
      with assms(1) \<open>find_json_line h (rev (split_nl (strip out))) = Inr found\<close> Some sel(4) d ne
      show ?thesis by (simp add: parse_json_output_def)
    qed
    then have fields:
      "validate_bool h (dict_get d (lit ''success'') (JBool True)) = Some (success r)
       \<and> validate_opt_dict (dict_get d (lit ''data'') JNull) = Some (data r)
       \<and> validate_opt_str (dict_get d (lit ''error'') JNull) = Some (error r)"
      by (rule new_CLIResult_fields)
    from sel(2) have later: "\<forall>l\<in>set (rev pre). \<not> is_result_line h l \<and> \<not> decoder_fault h l"
      by simp
    from lines sel(3) later d fields show ?thesis by blast
  qed
qed

lemma interpret_violation:
  assumes "handlers config (interpret_output h out_bytes err_bytes rc) = Inr r"
    and "\<not> outcome_invariant r"
  shows "rc = 0 \<and> (\<exists>out err before line after d.
           utf8_decode out_bytes = Some out \<and> utf8_decode err_bytes = Some err
           \<and> split_nl out = before @ line # after \<and> is_result_line h line
           \<and> (\<forall>l\<in>set after. \<not> is_result_line h l \<and> \<not> decoder_fault h l)
           \<and> json_loads h (strip line) = Inr d
           \<and> validate_bool h (dict_get d (lit ''success'') (JBool True)) = Some (success r)
           \<and> validate_opt_dict (dict_get d (lit ''data'') JNull) = Some (data r)
           \<and> validate_opt_str (dict_get d (lit ''error'') JNull) = Some (error r))"
proof (cases "interpret_output h out_bytes err_bytes rc")
  case (Inl e)
  with assms show ?thesis by (simp add: handlers_exn_invariant)
next
  case (Inr r')
  with assms(1) have r: "r = r'" by (simp add: handlers_value)
  from Inr obtain out err where
    dec: "utf8_decode out_bytes = Some out" "utf8_decode err_bytes = Some err"
    by (auto simp: interpret_output_def split: option.splits)
  have zero: "rc = 0"
  proof (rule ccontr)
    assume "rc \<noteq> 0"
    with Inr have "outcome_invariant r'"
      by (auto simp: interpret_decoded [OF dec] outcome_invariant_def lit_def)
    with assms(2) r show False by simp
  qed
  with Inr r have "parse_json_output h (strip out) (strip err) rc = Inr r"
    by (simp add: interpret_decoded [OF dec])
  from parse_violation [OF this assms(2)] dec zero show ?thesis by blast
qed

text \<open>
  Claim C2, as amended. Every returned result satisfies the invariant, unless it is built
  from the result line that the scan selects in an execution with exit status zero: its
  \<open>success\<close>, \<open>data\<close> and \<open>error\<close> are then the validated fields of that line,
  copied as they are, so the invariant fails only where the line's own fields break it.
\<close>

theorem invariant_unless_copied_from_result_line:
  assumes "snd (run_imi_command h args config) = Inr r"
  shows "outcome_invariant r
         \<or> (\<exists>bin p out_bytes err_bytes out err before line after d.
               which h (imi_binary_path config) = Some bin
               \<and> create_subprocess_exec h ([bin, lit ''--json''] @ args) = Inr p
               \<and> wait_for_communicate h p (timeout_seconds config)
                   = Finished out_bytes err_bytes 0
               \<and> utf8_decode out_bytes = Some out \<and> utf8_decode err_bytes = Some err
               \<and> split_nl out = before @ line # after \<and> is_result_line h line
               \<and> (\<forall>l\<in>set after. \<not> is_result_line h l \<and> \<not> decoder_fault h l)
               \<and> json_loads h (strip line) = Inr d
               \<and> validate_bool h (dict_get d (lit ''success'') (JBool True)) = Some (success r)
               \<and> validate_opt_dict (dict_get d (lit ''data'') JNull) = Some (data r)
               \<and> validate_opt_str (dict_get d (lit ''error'') JNull) = Some (error r))"
proof (cases "outcome_invariant r")
  case True
  then show ?thesis by simp
next
  case viol: False
  have found: "which h (imi_binary_path config) \<noteq> None
               \<and> which h (imi_binary_path config) \<noteq> Some []"
  proof (rule ccontr)
    assume "\<not> ?thesis"
    with assms have "outcome_invariant r"
      by (auto simp: run_imi_command_def outcome_invariant_def lit_def)
    with viol show False by simp
  qed
  then obtain bin where bin: "which h (imi_binary_path config) = Some bin" "bin \<noteq> []"
    by auto
  obtain p where p: "create_subprocess_exec h ([bin, lit ''--json''] @ args) = Inr p"
  proof (cases "create_subprocess_exec h ([bin, lit ''--json''] @ args)")
    case (Inl e)
    with bin assms have "outcome_invariant r"
      by (auto simp: run_imi_command_def intro: handlers_exn_invariant)
    with viol show ?thesis by simp
  next
    case (Inr q)
    then show ?thesis by (rule that)
  qed
  obtain out_bytes err_bytes rc where
    fin: "wait_for_communicate h p (timeout_seconds config) = Finished out_bytes err_bytes rc"
  proof (cases "wait_for_communicate h p (timeout_seconds config)")
    case (Finished ob eb c)
    then show ?thesis by (rule that)
  next
    case (Expired po pe)
    with bin p assms have "outcome_invariant r"
      by (auto simp: run_imi_command_def intro: handlers_exn_invariant)
    with viol show ?thesis by simp
  next
    case (CommunicateRaised e)
    with bin p assms have "outcome_invariant r"
      by (auto simp: run_imi_command_def intro: handlers_exn_invariant)
    with viol show ?thesis by simp
  qed
  from assms have "handlers config (interpret_output h out_bytes err_bytes rc) = Inr r"
    by (simp add: run_finished [OF bin p fin])
  from interpret_violation [OF this viol] bin(1) p fin show ?thesis by blast
qed

theorem invariant_unless_copied_from_result_line_witness:
  \<open>snd (run_imi_command
          (scripted_host (Finished (ascii ''{"success": false}'' @ [0x0A]) [] 0) [false_doc])
          [lit ''add''] default_config) =
     Inr \<lparr>success = False, data = None, error = None,
          stdout = Some (lit ''{"success": false}''), stderr = None, exit_code = 0\<rparr>
   \<and> \<not> outcome_invariant
         \<lparr>success = False, data = None, error = None,
          stdout = Some (lit ''{"success": false}''), stderr = None, exit_code = 0\<rparr>
   \<and> (\<exists>bin p out_bytes err_bytes out err before line after d.
         which (scripted_host (Finished (ascii ''{"success": false}'' @ [0x0A]) [] 0) [false_doc])
           (imi_binary_path default_config) = Some bin
         \<and> create_subprocess_exec
             (scripted_host (Finished (ascii ''{"success": false}'' @ [0x0A]) [] 0) [false_doc])
             ([bin, lit ''--json''] @ [lit ''add'']) = Inr p
         \<and> wait_for_communicate
             (scripted_host (Finished (ascii ''{"success": false}'' @ [0x0A]) [] 0) [false_doc])
             p (timeout_seconds default_config) = Finished out_bytes err_bytes 0
         \<and> utf8_decode out_bytes = Some out \<and> utf8_decode err_bytes = Some err
         \<and> split_nl out = before @ line # after
         \<and> is_result_line
             (scripted_host (Finished (ascii ''{"success": false}'' @ [0x0A]) [] 0) [false_doc])
             line
         \<and> json_loads
             (scripted_host (Finished (ascii ''{"success": false}'' @ [0x0A]) [] 0) [false_doc])
             (strip line) = Inr d
         \<and> validate_bool
             (scripted_host (Finished (ascii ''{"success": false}'' @ [0x0A]) [] 0) [false_doc])
             (dict_get d (lit ''success'') (JBool True)) = Some False
         \<and> validate_opt_str (dict_get d (lit ''error'') JNull) = Some None)\<close>
proof -
  let ?h = \<open>scripted_host (Finished (ascii ''{"success": false}'' @ [0x0A]) [] 0) [false_doc]\<close>
  let ?r = \<open>\<lparr>success = False, data = None, error = None,
              stdout = Some (lit ''{"success": false}''), stderr = None, exit_code = 0\<rparr>\<close>
  have run: "snd (run_imi_command ?h [lit ''add''] default_config) = Inr ?r"
    by (simp add: example_defs run_defs)
  have viol: "\<not> outcome_invariant ?r"
    by (simp add: outcome_invariant_def)
  from invariant_unless_copied_from_result_line [OF run] viol
  have "\<exists>bin p out_bytes err_bytes out err before line after d.
          which ?h (imi_binary_path default_config) = Some bin
          \<and> create_subprocess_exec ?h ([bin, lit ''--json''] @ [lit ''add'']) = Inr p
          \<and> wait_for_communicate ?h p (timeout_seconds default_config)
              = Finished out_bytes err_bytes 0
          \<and> utf8_decode out_bytes = Some out \<and> utf8_decode err_bytes = Some err
          \<and> split_nl out = before @ line # after \<and> is_result_line ?h line
          \<and> (\<forall>l\<in>set after. \<not> is_result_line ?h l \<and> \<not> decoder_fault ?h l)
          \<and> json_loads ?h (strip line) = Inr d
          \<and> validate_bool ?h (dict_get d (lit ''success'') (JBool True)) = Some (success ?r)
          \<and> validate_opt_dict (dict_get d (lit ''data'') JNull) = Some (data ?r)
          \<and> validate_opt_str (dict_get d (lit ''error'') JNull) = Some (error ?r)"
    by blast
  then have "\<exists>bin p out_bytes err_bytes out err before line after d.
          which ?h (imi_binary_path default_config) = Some bin
          \<and> create_subprocess_exec ?h ([bin, lit ''--json''] @ [lit ''add'']) = Inr p
          \<and> wait_for_communicate ?h p (timeout_seconds default_config)
              = Finished out_bytes err_bytes 0
          \<and> utf8_decode out_bytes = Some out \<and> utf8_decode err_bytes = Some err
          \<and> split_nl out = before @ line # after \<and> is_result_line ?h line
          \<and> json_loads ?h (strip line) = Inr d
          \<and> validate_bool ?h (dict_get d (lit ''success'') (JBool True)) = Some False
          \<and> validate_opt_str (dict_get d (lit ''error'') JNull) = Some None"
    by (elim exE conjE, intro exI conjI) (assumption | simp)+
  with run viol show ?thesis by (intro conjI)
qed

text \<open>
  Claim C2 as stated fails on a result line that carries \<open>error\<close> beside a true
  \<open>success\<close>: both are copied, and the result is a success with an error text.
\<close>

theorem success_with_error_text:
  \<open>snd (run_imi_command
          (scripted_host (Finished (ascii ''{"success": true, "error": "x"}'' @ [0x0A]) [] 0)
             [true_error_doc])
          [lit ''add''] default_config) =
     Inr \<lparr>success = True, data = None, error = Some (lit ''x''),
          stdout = Some (lit ''{"success": true, "error": "x"}''), stderr = None,
          exit_code = 0\<rparr>
   \<and> \<not> outcome_invariant
         \<lparr>success = True, data = None, error = Some (lit ''x''),
          stdout = Some (lit ''{"success": true, "error": "x"}''), stderr = None,
          exit_code = 0\<rparr>\<close>
  by (simp add: example_defs run_defs outcome_invariant_def)

end
